theory Spec2Isabelle
  imports Main
begin

section \<open>Python strings\<close>

text \<open>
  A Python \<^verbatim>\<open>str\<close> is a sequence of Unicode code points, so a string is modelled as
  the list of its code points. Literals of the source that are plain ASCII are written
  with \<open>u\<close>; the few other characters of the source (the dash of the greeting, the
  marks printed by \<^verbatim>\<open>main\<close>) appear as their code point.
\<close>

type_synonym ustr = "nat list"

definition u :: "string \<Rightarrow> ustr" where
  "u s = map of_char s"

text \<open>
  The characters \<^verbatim>\<open>str.split()\<close> treats as whitespace (those with
  \<^verbatim>\<open>str.isspace()\<close>): TAB, LF, VT, FF, CR, the separators U+001C..U+001F, SPACE, NEL,
  NBSP, U+1680, U+2000..U+200A, U+2028, U+2029, U+202F, U+205F and U+3000.
\<close>

definition is_space :: "nat \<Rightarrow> bool" where
  "is_space c = (c \<in> set [9, 10, 11, 12, 13, 28, 29, 30, 31, 32, 133, 160, 5760,
                           8232, 8233, 8239, 8287, 12288]
                 \<or> (8192 \<le> c \<and> c \<le> 8202))"

text \<open>
  \<^verbatim>\<open>text.split()\<close> without a separator: one scan over the string, collecting the
  current word in \<open>cur\<close>; a whitespace character closes the word if one is open, and
  runs of whitespace, also leading and trailing ones, yield no empty word.
\<close>

fun split_from :: "ustr \<Rightarrow> ustr \<Rightarrow> ustr list" where
  "split_from cur [] = (if cur = [] then [] else [cur])"
| "split_from cur (c # cs) =
     (if is_space c
      then (if cur = [] then split_from [] cs else cur # split_from [] cs)
      else split_from (cur @ [c]) cs)"

definition py_split :: "ustr \<Rightarrow> ustr list" where
  "py_split text = split_from [] text"

text \<open>\<^verbatim>\<open>sep.join(words)\<close>.\<close>

fun py_join :: "ustr \<Rightarrow> ustr list \<Rightarrow> ustr" where
  "py_join sep [] = []"
| "py_join sep [w] = w"
| "py_join sep (w # v # ws) = w @ sep @ py_join sep (v # ws)"

text \<open>
  The slice \<^verbatim>\<open>xs[:k]\<close>: the first \<open>k\<close> elements, and for a negative \<open>k\<close> all but
  the last \<open>-k\<close> elements.
\<close>

definition py_slice_to :: "'a list \<Rightarrow> int \<Rightarrow> 'a list" where
  "py_slice_to xs k =
     (if k < 0 then take (nat (int (length xs) + k)) xs else take (nat k) xs)"

section \<open>slides.py: templates and utilities\<close>

definition TITLE_INTRO_TEMPLATE :: "ustr \<Rightarrow> ustr" where
  "TITLE_INTRO_TEMPLATE concept_name =
     u ''Welcome '' @ [8212] @ u '' today we'll learn about '' @ concept_name @ u ''.''"

definition DEFINITION_TEMPLATE_BEGINNER :: "ustr \<Rightarrow> ustr \<Rightarrow> ustr" where
  "DEFINITION_TEMPLATE_BEGINNER concept_name defn =
     concept_name @ u '' can be understood as: '' @ defn
     @ u '' I'll explain the idea step by step with a simple example.''"

definition DEFINITION_TEMPLATE_ADVANCED :: "ustr \<Rightarrow> ustr \<Rightarrow> ustr" where
  "DEFINITION_TEMPLATE_ADVANCED concept_name defn =
     u ''Formally, '' @ concept_name @ u '' is: '' @ defn
     @ u '' We'll also highlight important properties and implications.''"

definition EXAMPLE_TEMPLATE :: "ustr \<Rightarrow> ustr \<Rightarrow> ustr" where
  "EXAMPLE_TEMPLATE example_brief example_point =
     u ''Example: Consider '' @ example_brief @ u ''. This demonstrates the main idea: ''
     @ example_point @ u ''.''"

definition RELATED_TEMPLATE :: "ustr \<Rightarrow> ustr" where
  "RELATED_TEMPLATE related_list =
     u ''Related topics you might want to learn next: '' @ related_list @ u ''.''"

text \<open>\<^verbatim>\<open>safe_join\<close>: the non-empty entries, joined with a comma and a space.\<close>

definition safe_join :: "ustr list \<Rightarrow> ustr" where
  "safe_join lst = py_join (u '', '') (filter (\<lambda>x. x \<noteq> []) lst)"

definition truncate_text :: "ustr \<Rightarrow> int \<Rightarrow> ustr" where
  "truncate_text text max_words =
     (let words = py_split text
      in py_join (u '' '') (py_slice_to words max_words)
         @ (if int (length words) > max_words then u ''...'' else []))"

section \<open>slides.py: the deck generator\<close>

text \<open>
  A slide is a dictionary; the title slide has the keys \<^verbatim>\<open>type\<close>, \<^verbatim>\<open>title\<close>,
  \<^verbatim>\<open>subtitle\<close> and \<^verbatim>\<open>duration_sec\<close>, the other four have \<^verbatim>\<open>bullets\<close> and
  \<^verbatim>\<open>notes\<close> in place of \<^verbatim>\<open>subtitle\<close>. A key that a slide lacks is \<open>None\<close>.
\<close>

record slide =
  slide_type :: ustr
  title :: ustr
  subtitle :: "ustr option"
  bullets :: "ustr list option"
  "notes" :: "ustr option"
  duration_sec :: int

record deck =
  concept :: ustr
  generated_at :: ustr
  audience_level :: ustr
  slides :: "slide list"

text \<open>
  \<^verbatim>\<open>generate_slide_deck\<close>. The clock is an input: \<open>now\<close> is what
  \<^verbatim>\<open>datetime.utcnow().isoformat()\<close> returns at the call.
\<close>

definition generate_slide_deck :: "ustr \<Rightarrow> ustr \<Rightarrow> ustr \<Rightarrow> ustr list \<Rightarrow> ustr \<Rightarrow> deck \<times> ustr" where
  "generate_slide_deck now concept_name defn related level =
     (let title_slide = \<lparr> slide_type = u ''title'',
                          title = u ''Introduction to '' @ concept_name,
                          subtitle = Some (truncate_text defn 15),
                          bullets = None,
                          notes = None,
                          duration_sec = 4 \<rparr>;
          def_template = (if level = u ''beginner'' then DEFINITION_TEMPLATE_BEGINNER
                          else DEFINITION_TEMPLATE_ADVANCED);
          definition_text = def_template concept_name defn;
          definition_slide = \<lparr> slide_type = u ''definition'',
                               title = u ''What is '' @ concept_name @ u ''?'',
                               subtitle = None,
                               bullets = Some [truncate_text defn 20],
                               notes = Some definition_text,
                               duration_sec = 10 \<rparr>;
          example_brief = (if related \<noteq> []
                           then u ''a simple case involving '' @ hd related
                           else u ''a simple conceptual scenario'');
          example_point = (if related \<noteq> []
                           then u ''how '' @ concept_name @ u '' uses '' @ hd related
                                @ u '' in structure/operation''
                           else u ''the core intuition behind '' @ concept_name);
          example_slide = \<lparr> slide_type = u ''example'',
                            title = u ''Simple example: '' @ truncate_text example_brief 6,
                            subtitle = None,
                            bullets = Some [u ''Set up the scenario'',
                                            u ''Apply the core idea of '' @ concept_name,
                                            u ''Observe the result / takeaway''],
                            notes = Some (EXAMPLE_TEMPLATE example_brief example_point),
                            duration_sec = 12 \<rparr>;
          related_list_str = (if related \<noteq> [] then safe_join related
                              else u ''No related topics available.'');
          related_slide = \<lparr> slide_type = u ''related'',
                            title = u ''Related topics & next steps'',
                            subtitle = None,
                            bullets = Some (if related \<noteq> [] then related
                                            else [u ''Further reading not available'']),
                            notes = Some (RELATED_TEMPLATE related_list_str),
                            duration_sec = 6 \<rparr>;
          summary = u ''In summary, '' @ concept_name @ u '': '' @ truncate_text defn 20;
          summary_slide = \<lparr> slide_type = u ''summary'',
                            title = u ''Summary'',
                            subtitle = None,
                            bullets = Some [truncate_text defn 20],
                            notes = Some summary,
                            duration_sec = 6 \<rparr>;
          slides = [title_slide, definition_slide, example_slide, related_slide, summary_slide];
          narration_lines = [TITLE_INTRO_TEMPLATE concept_name,
                             definition_text,
                             the (notes example_slide),
                             the (notes related_slide),
                             summary];
          full_script = py_join (u [CHR 0x0A, CHR 0x0A]) narration_lines
      in (\<lparr> concept = concept_name,
            generated_at = now @ u ''Z'',
            audience_level = level,
            slides = slides \<rparr>,
          full_script))"

section \<open>slides.py: the Manim stub and the entry point\<close>

text \<open>
  \<^verbatim>\<open>json.dumps\<close> of a string, with its default \<^verbatim>\<open>ensure_ascii\<close>: the string in double
  quotes, a backslash and a double quote escaped, the control characters with a short
  escape as such, and every other character outside SPACE..TILDE as \<^verbatim>\<open>\uXXXX\<close>, a
  character beyond U+FFFF as its two surrogates.
\<close>

definition hex_digit :: "nat \<Rightarrow> nat" where
  "hex_digit d = (if d < 10 then 48 + d else 87 + d)"

definition hex4 :: "nat \<Rightarrow> ustr" where
  "hex4 n = [hex_digit (n div 4096 mod 16), hex_digit (n div 256 mod 16),
             hex_digit (n div 16 mod 16), hex_digit (n mod 16)]"

definition json_escape_char :: "nat \<Rightarrow> ustr" where
  "json_escape_char c =
     (if c = 92 then [92, 92]
      else if c = 34 then [92, 34]
      else if c = 8 then [92, 98]
      else if c = 12 then [92, 102]
      else if c = 10 then [92, 110]
      else if c = 13 then [92, 114]
      else if c = 9 then [92, 116]
      else if 32 \<le> c \<and> c \<le> 126 then [c]
      else if c < 65536 then [92, 117] @ hex4 c
      else [92, 117] @ hex4 (55296 + (c - 65536) div 1024 mod 1024)
           @ [92, 117] @ hex4 (56320 + (c - 65536) mod 1024))"

definition json_dumps_str :: "ustr \<Rightarrow> ustr" where
  "json_dumps_str s = [34] @ concat (map json_escape_char s) @ [34]"

text \<open>\<^verbatim>\<open>os.path.basename\<close>: what follows the last slash.\<close>

definition basename :: "ustr \<Rightarrow> ustr" where
  "basename p = rev (takeWhile (\<lambda>c. c \<noteq> 47) (rev p))"

text \<open>
  The files of the working directory and the console. A file holds the JSON text of a
  concept table, the JSON text of a deck, or text that is not JSON (the narration, the
  Manim scene); the JSON serialisation itself is not modelled.
\<close>

record concept_entry =
  entry_definition :: "ustr option"
  entry_related :: "ustr list option"

type_synonym kgraph = "ustr \<Rightarrow> concept_entry option"

datatype file_content = Json_table kgraph | Json_deck deck | Text ustr

datatype error = FileNotFoundError ustr | JSONDecodeError | AttributeError | KeyError ustr

record world =
  files :: "ustr \<Rightarrow> file_content option"
  stdout :: "ustr list"

definition write_file :: "world \<Rightarrow> ustr \<Rightarrow> file_content \<Rightarrow> world" where
  "write_file w path c = w\<lparr> files := (files w)(path \<mapsto> c) \<rparr>"

definition print :: "world \<Rightarrow> ustr list \<Rightarrow> world" where
  "print w lines = w\<lparr> stdout := stdout w @ lines \<rparr>"

definition write_simple_manim :: "world \<Rightarrow> deck \<Rightarrow> ustr \<Rightarrow> world \<times> ustr option" where
  "write_simple_manim w d out_path =
     (case slides d of
        [] \<Rightarrow> (w, None)
      | first_slide # _ \<Rightarrow>
          (let title_text = title first_slide;
               subtitle_text = (case subtitle first_slide of None \<Rightarrow> [] | Some s \<Rightarrow> s);
               manim_code =
                 u ''# Auto-generated Manim scene (Community Manim)'' @ [10]
                 @ u ''# To render: manim -pql '' @ basename out_path @ u '' SimpleTitleScene'' @ [10]
                 @ u ''from manim import *'' @ [10]
                 @ [10]
                 @ u ''class SimpleTitleScene(Scene):'' @ [10]
                 @ u ''    def construct(self):'' @ [10]
                 @ u ''        title = Text('' @ json_dumps_str title_text
                 @ u '').scale(1.2).to_edge(UP)'' @ [10]
                 @ u ''        subtitle = Text('' @ json_dumps_str subtitle_text
                 @ u '').scale(0.6).next_to(title, DOWN)'' @ [10]
                 @ u ''        self.play(Write(title))'' @ [10]
                 @ u ''        self.wait(0.6)'' @ [10]
                 @ u ''        self.play(Write(subtitle))'' @ [10]
                 @ u ''        self.wait(2)'' @ [10]
           in (write_file w out_path (Text manim_code), Some out_path)))"

text \<open>\<^verbatim>\<open>str(i)\<close> of a natural number: its decimal digits.\<close>

function str_of_nat :: "nat \<Rightarrow> ustr" where
  "str_of_nat n = (if n < 10 then [48 + n] else str_of_nat (n div 10) @ [48 + n mod 10])"
  by pat_completeness auto

termination
  by (relation "measure id") auto

declare str_of_nat.simps [simp del]

text \<open>\<^verbatim>\<open>s[:k] + ("..." if len(s) > k else "")\<close>, the cut of the console preview.\<close>

definition preview :: "nat \<Rightarrow> ustr \<Rightarrow> ustr" where
  "preview k s = take k s @ (if length s > k then u ''...'' else [])"

text \<open>What the preview loop prints for slide \<open>i\<close>, one entry for each \<^verbatim>\<open>print\<close>.\<close>

definition slide_preview :: "nat \<times> slide \<Rightarrow> ustr list" where
  "slide_preview p =
     (case p of (i, s) \<Rightarrow>
        [[10] @ u ''Slide '' @ str_of_nat i @ u '': ('' @ slide_type s @ u '') '' @ title s]
        @ (case bullets s of None \<Rightarrow> [] | Some bs \<Rightarrow> map (\<lambda>b. u '' - '' @ b) bs)
        @ (case notes s of None \<Rightarrow> [] | Some n \<Rightarrow> [u ''Notes: '' @ preview 200 n]))"

text \<open>
  \<^verbatim>\<open>main\<close>, from a world \<open>w\<close> to the world it leaves, or the exception it raises.
  Its first argument is the clock reading passed on to \<open>generate_slide_deck\<close>.
  Reading \<^verbatim>\<open>knowledge_graph.json\<close> raises when the file is missing or is not JSON; a
  deck file there loads as a dictionary of its four keys, none of which has a
  \<^verbatim>\<open>get\<close>. Writing is to a writable directory.
\<close>

definition main :: "ustr \<Rightarrow> world \<Rightarrow> ustr \<Rightarrow> ustr \<Rightarrow> error + world" where
  "main now w concept_query level =
     (let not_found = [10060] @ u '' Concept '' @ [39] @ concept_query @ [39]
                      @ u '' not found in knowledge_graph.json''
      in case files w (u ''knowledge_graph.json'') of
           None \<Rightarrow> Inl (FileNotFoundError (u ''knowledge_graph.json''))
         | Some (Text _) \<Rightarrow> Inl JSONDecodeError
         | Some (Json_deck _) \<Rightarrow>
             (if concept_query \<in> set [u ''concept'', u ''generated_at'', u ''audience_level'', u ''slides'']
              then Inl AttributeError
              else Inr (print w [not_found]))
         | Some (Json_table kg) \<Rightarrow>
             (case kg concept_query of
                None \<Rightarrow> Inr (print w [not_found])
              | Some entry \<Rightarrow>
                  (let defn = (case entry_definition entry of
                                 None \<Rightarrow> u ''Definition not available.'' | Some d \<Rightarrow> d);
                       related = (case entry_related entry of None \<Rightarrow> [] | Some r \<Rightarrow> r);
                       generated = generate_slide_deck now concept_query defn related level;
                       w1 = write_file w (u ''slides.json'') (Json_deck (fst generated));
                       w2 = write_file w1 (u ''script.txt'') (Text (snd generated));
                       written = write_simple_manim w2 (fst generated) (u ''generated_manim.py'');
                       w3 = print (fst written)
                              [[9989] @ u '' Slide deck generated: slides.json'',
                               [9989] @ u '' Narration script saved: script.txt''];
                       w4 = (case snd written of
                               None \<Rightarrow> w3
                             | Some manim_file \<Rightarrow>
                                 (if manim_file = [] then w3
                                  else print w3 [[9989] @ u '' Minimal Manim scene created: ''
                                                 @ manim_file]));
                       w5 = print w4 [[10] @ u ''--- Slide preview ---''];
                       w6 = print w5 (concat (map slide_preview
                                                (enumerate 0 (slides (fst generated)))));
                       w7 = print w6 [[10] @ u ''--- Full narration (first 600 chars) ---'' @ [10]]
                   in Inr (print w7 [preview 600 (snd generated)]))))"

section \<open>knowledge_graph.py\<close>

definition knowledge_graph :: kgraph where
  "knowledge_graph =
     [u ''Data Structures'' \<mapsto>
        \<lparr> entry_definition = Some (u ''Ways to store and organize data efficiently.''),
          entry_related = Some [u ''Arrays'', u ''Linked List'', u ''Trees''] \<rparr>,
      u ''Algorithms'' \<mapsto>
        \<lparr> entry_definition = Some (u ''Step-by-step procedures to solve problems.''),
          entry_related = Some [u ''Sorting'', u ''Searching''] \<rparr>,
      u ''Trees'' \<mapsto>
        \<lparr> entry_definition = Some (u ''A hierarchical data structure with nodes.''),
          entry_related = Some [u ''Binary Tree'', u ''Graphs''] \<rparr>,
      u ''Graphs'' \<mapsto>
        \<lparr> entry_definition = Some (u ''A collection of nodes connected by edges.''),
          entry_related = Some [u ''Trees'', u ''Graph Traversal''] \<rparr>]"

text \<open>
  \<^verbatim>\<open>get_concept_info\<close>, with the table \<^verbatim>\<open>kg\<close> it reads as an argument. Subscripting
  an entry by a key it lacks raises \<^verbatim>\<open>KeyError\<close>.
\<close>

definition get_concept_info :: "kgraph \<Rightarrow> ustr \<Rightarrow> error + (ustr option \<times> ustr list)" where
  "get_concept_info kg concept_name =
     (case kg concept_name of
        Some entry \<Rightarrow>
          (case entry_definition entry of
             None \<Rightarrow> Inl (KeyError (u ''definition''))
           | Some defn \<Rightarrow>
               (case entry_related entry of
                  None \<Rightarrow> Inl (KeyError (u ''related''))
                | Some related \<Rightarrow> Inr (Some defn, related)))
      | None \<Rightarrow> Inr (None, []))"

text \<open>
  The working directory of the demonstration: the table file as \<^verbatim>\<open>knowledge_graph.py\<close>
  writes it, and nothing else.
\<close>

definition demo_world :: world where
  "demo_world = \<lparr> files = [u ''knowledge_graph.json'' \<mapsto> Json_table knowledge_graph], stdout = [] \<rparr>"

section \<open>Whitespace-delimited words\<close>

text \<open>
  The words of a text as the specification speaks of them: skip the whitespace in front;
  if nothing is left there is no word; otherwise the first word is the longest prefix
  free of whitespace, and the other words are the words of what follows it.
\<close>

function whitespace_words :: "ustr \<Rightarrow> ustr list" where
  "whitespace_words s =
     (case dropWhile is_space s of
        [] \<Rightarrow> []
      | c # cs \<Rightarrow> takeWhile (\<lambda>x. \<not> is_space x) (c # cs)
                  # whitespace_words (dropWhile (\<lambda>x. \<not> is_space x) (c # cs)))"
  by pat_completeness auto

termination
proof (relation "measure length")
  show "wf (measure length)" by simp
next
  fix s :: ustr and c cs
  assume d: "dropWhile is_space s = c # cs"
  have "\<not> is_space c" using d hd_dropWhile [of is_space s] by auto
  then have "dropWhile (\<lambda>x. \<not> is_space x) (c # cs) = dropWhile (\<lambda>x. \<not> is_space x) cs"
    by simp
  moreover have "length (dropWhile (\<lambda>x. \<not> is_space x) cs) \<le> length cs"
    by (rule length_dropWhile_le)
  moreover have "length (c # cs) \<le> length s"
    using length_dropWhile_le [of is_space s] d by simp
  ultimately show "(dropWhile (\<lambda>x. \<not> is_space x) (c # cs), s) \<in> measure length"
    by simp
qed

declare whitespace_words.simps [simp del]

section \<open>Splitting and joining\<close>

text \<open>The scan of \<open>py_split\<close> yields the whitespace-delimited words.\<close>

lemma whitespace_words_Nil: "whitespace_words [] = []"
  by (simp add: whitespace_words.simps)

lemma whitespace_words_space: "is_space c \<Longrightarrow> whitespace_words (c # cs) = whitespace_words cs"
  by (simp add: whitespace_words.simps [of "c # cs"] whitespace_words.simps [of cs])

lemma whitespace_words_nonspace:
  "\<not> is_space c \<Longrightarrow> whitespace_words (c # cs) =
     (c # takeWhile (\<lambda>x. \<not> is_space x) cs) # whitespace_words (dropWhile (\<lambda>x. \<not> is_space x) cs)"
  by (simp add: whitespace_words.simps [of "c # cs"])

lemma split_from_words:
  "split_from cur s =
     (if cur = [] then whitespace_words s
      else (cur @ takeWhile (\<lambda>x. \<not> is_space x) s)
           # whitespace_words (dropWhile (\<lambda>x. \<not> is_space x) s))"
proof (induction s arbitrary: cur)
  case Nil
  show ?case by (simp add: whitespace_words_Nil)
next
  case (Cons c cs)
  show ?case
  proof (cases "is_space c")
    case True
    then show ?thesis by (simp add: Cons.IH [of "[]"] whitespace_words_space)
  next
    case False
    then show ?thesis by (simp add: Cons.IH [of "cur @ [c]"] whitespace_words_nonspace)
  qed
qed

lemma py_split_words: "py_split text = whitespace_words text"
  by (simp add: py_split_def split_from_words)

lemma whitespace_words_word_prefix:
  assumes "w \<noteq> []" and "\<forall>c\<in>set w. \<not> is_space c" and "r = [] \<or> is_space (hd r)"
  shows "whitespace_words (w @ r) = w # whitespace_words r"
proof -
  obtain c w' where w: "w = c # w'" using assms(1) by (cases w) auto
  have c: "\<not> is_space c" and w': "\<And>x. x \<in> set w' \<Longrightarrow> \<not> is_space x"
    using assms(2) w by auto
  have t: "takeWhile (\<lambda>x. \<not> is_space x) r = []" using assms(3) by (cases r) auto
  have d: "dropWhile (\<lambda>x. \<not> is_space x) r = r" using assms(3) by (cases r) auto
  have "takeWhile (\<lambda>x. \<not> is_space x) (w' @ r) = w'"
    using w' t by (simp add: takeWhile_append2)
  moreover have "dropWhile (\<lambda>x. \<not> is_space x) (w' @ r) = r"
    using w' d by (simp add: dropWhile_append2)
  ultimately show ?thesis using c w by (simp add: whitespace_words_nonspace)
qed

lemma whitespace_words_join:
  "\<forall>w\<in>set ws. w \<noteq> [] \<and> (\<forall>c\<in>set w. \<not> is_space c) \<Longrightarrow>
     whitespace_words (py_join (u '' '') ws) = ws"
proof (induction ws)
  case Nil
  show ?case by (simp add: whitespace_words_Nil)
next
  case (Cons w ws)
  have w: "w \<noteq> []" "\<forall>c\<in>set w. \<not> is_space c" using Cons.prems by auto
  show ?case
  proof (cases ws)
    case Nil
    then show ?thesis
      using whitespace_words_word_prefix [OF w, of "[]"] by (simp add: whitespace_words_Nil)
  next
    case (Cons v vs)
    have sp: "is_space 32" by (simp add: is_space_def)
    have ih: "whitespace_words (py_join (u '' '') (v # vs)) = v # vs"
      using Cons.IH Cons.prems Cons by simp
    have "whitespace_words (w @ 32 # py_join (u '' '') (v # vs))
            = w # whitespace_words (32 # py_join (u '' '') (v # vs))"
      using whitespace_words_word_prefix [OF w, of "32 # py_join (u '' '') (v # vs)"] sp by simp
    then show ?thesis using Cons ih sp by (simp add: whitespace_words_space u_def)
  qed
qed

lemma whitespace_words_are_words:
  "w \<in> set (whitespace_words s) \<Longrightarrow> w \<noteq> [] \<and> (\<forall>c\<in>set w. \<not> is_space c)"
proof (induction s arbitrary: w rule: whitespace_words.induct)
  case (1 s)
  show ?case
  proof (cases "dropWhile is_space s")
    case Nil
    have "whitespace_words s = []" by (subst whitespace_words.simps) (simp add: Nil)
    then show ?thesis using "1.prems" by simp
  next
    case (Cons c cs)
    have c: "\<not> is_space c" using Cons hd_dropWhile [of is_space s] by auto
    have "whitespace_words s = takeWhile (\<lambda>x. \<not> is_space x) (c # cs)
            # whitespace_words (dropWhile (\<lambda>x. \<not> is_space x) (c # cs))"
      by (subst whitespace_words.simps) (simp add: Cons)
    then have "w = takeWhile (\<lambda>x. \<not> is_space x) (c # cs)
          \<or> w \<in> set (whitespace_words (dropWhile (\<lambda>x. \<not> is_space x) (c # cs)))"
      using "1.prems" by simp
    then show ?thesis
    proof
      assume "w = takeWhile (\<lambda>x. \<not> is_space x) (c # cs)"
      then show ?thesis using c by (auto dest: set_takeWhileD)
    next
      assume "w \<in> set (whitespace_words (dropWhile (\<lambda>x. \<not> is_space x) (c # cs)))"
      then show ?thesis using "1.IH" [OF Cons] by blast
    qed
  qed
qed

lemma py_join_snoc_suffix:
  "xs \<noteq> [] \<Longrightarrow> py_join sep (butlast xs @ [last xs @ t]) = py_join sep xs @ t"
proof (induction xs)
  case Nil
  then show ?case by simp
next
  case (Cons x xs)
  show ?case
  proof (cases xs)
    case Nil
    then show ?thesis by simp
  next
    case (Cons y ys)
    then have "py_join sep (butlast xs @ [last xs @ t]) = py_join sep xs @ t"
      using Cons.IH by simp
    moreover obtain z zs where "butlast xs @ [last xs @ t] = z # zs"
      by (cases "butlast xs @ [last xs @ t]") auto
    ultimately show ?thesis using Cons by simp
  qed
qed

lemma truncate_text_words:
  "0 \<le> n \<Longrightarrow> truncate_text text n =
     py_join (u '' '') (take (nat n) (whitespace_words text))
     @ (if n < int (length (whitespace_words text)) then u ''...'' else [])"
  by (simp add: truncate_text_def py_slice_to_def py_split_words Let_def)

lemma truncate_text_idem:
  assumes n: "0 \<le> n"
  shows "truncate_text (truncate_text text n) n = truncate_text text n"
proof -
  define ws where "ws = whitespace_words text"
  have words: "\<forall>w\<in>set ws. w \<noteq> [] \<and> (\<forall>c\<in>set w. \<not> is_space c)"
    using whitespace_words_are_words ws_def by blast
  have dots: "u ''...'' \<noteq> [] \<and> (\<forall>c\<in>set (u ''...''). \<not> is_space c)"
    by (simp add: u_def is_space_def)
  show ?thesis
  proof (cases "n < int (length ws)")
    case False
    then have out: "truncate_text text n = py_join (u '' '') ws"
      using n by (simp add: truncate_text_words ws_def)
    have "whitespace_words (py_join (u '' '') ws) = ws"
      using words by (rule whitespace_words_join)
    then show ?thesis using False n out by (simp add: truncate_text_words)
  next
    case True
    show ?thesis
    proof (cases "n = 0")
      case True
      have out: "truncate_text text 0 = u ''...''"
        using \<open>n < int (length ws)\<close> True by (simp add: truncate_text_words ws_def)
      have "whitespace_words (u ''...'') = [u ''...'']"
        using whitespace_words_word_prefix [of "u ''...''" "[]"] dots
        by (simp add: whitespace_words_Nil)
      then show ?thesis using True out by (simp add: truncate_text_words)
    next
      case False
      define xs where "xs = take (nat n) ws"
      have len: "length xs = nat n" using True n by (simp add: xs_def)
      have ne: "xs \<noteq> []" using len False n by auto
      define ys where "ys = butlast xs @ [last xs @ u ''...'']"
      have out: "truncate_text text n = py_join (u '' '') ys"
        using True n py_join_snoc_suffix [OF ne, of "u '' ''" "u ''...''"]
        by (simp add: truncate_text_words ws_def xs_def ys_def)
      have xs_words: "\<forall>w\<in>set xs. w \<noteq> [] \<and> (\<forall>c\<in>set w. \<not> is_space c)"
        using words by (auto simp: xs_def dest: in_set_takeD)
      have "last xs \<in> set xs" using ne by simp
      then have lastw: "\<forall>c\<in>set (last xs). \<not> is_space c" using xs_words by blast
      have ys_words: "\<forall>w\<in>set ys. w \<noteq> [] \<and> (\<forall>c\<in>set w. \<not> is_space c)"
        using xs_words lastw dots by (auto simp: ys_def dest: in_set_butlastD)
      have split: "whitespace_words (py_join (u '' '') ys) = ys"
        using ys_words by (rule whitespace_words_join)
      have leny: "length ys = nat n" using len ne by (cases xs) (auto simp: ys_def)
      show ?thesis using out split leny n by (simp add: truncate_text_words)
    qed
  qed
qed

text \<open>
  A negative bound, which no call of the generator passes, slices from the end: all but
  the last word are kept, and the dots are always added.
\<close>

lemma truncate_text_negative_bound:
  "truncate_text (u ''a b c'') (- 1) = u ''a b...''"
  by (simp add: truncate_text_def py_slice_to_def py_split_def Let_def u_def is_space_def)

section \<open>The entry point on a known concept\<close>

text \<open>
  For a concept of the table \<open>main\<close> returns normally and leaves the deck in
  \<^verbatim>\<open>slides.json\<close> and the narration in \<^verbatim>\<open>script.txt\<close>; a missing definition or list
  of related topics is replaced by its default.
\<close>

lemma generate_slide_deck_slides_nonempty:
  "slides (fst (generate_slide_deck now concept_name defn related level)) \<noteq> []"
  by (simp add: generate_slide_deck_def Let_def)

lemma write_simple_manim_files:
  "slides d \<noteq> [] \<Longrightarrow> p \<noteq> out_path \<Longrightarrow>
     files (fst (write_simple_manim w d out_path)) p = files w p
     \<and> snd (write_simple_manim w d out_path) = Some out_path
     \<and> stdout (fst (write_simple_manim w d out_path)) = stdout w
     \<and> (\<exists>code. files (fst (write_simple_manim w d out_path)) out_path = Some (Text code))"
  by (cases "slides d") (simp_all add: write_simple_manim_def write_file_def Let_def)

lemma main_found:
  assumes "files w (u ''knowledge_graph.json'') = Some (Json_table kg)"
    and "kg concept_query = Some entry"
  shows "\<exists>w'. main now w concept_query level = Inr w'
     \<and> files w' (u ''slides.json'')
         = Some (Json_deck (fst (generate_slide_deck now concept_query
              (case entry_definition entry of None \<Rightarrow> u ''Definition not available.'' | Some d \<Rightarrow> d)
              (case entry_related entry of None \<Rightarrow> [] | Some r \<Rightarrow> r) level)))
     \<and> files w' (u ''script.txt'')
         = Some (Text (snd (generate_slide_deck now concept_query
              (case entry_definition entry of None \<Rightarrow> u ''Definition not available.'' | Some d \<Rightarrow> d)
              (case entry_related entry of None \<Rightarrow> [] | Some r \<Rightarrow> r) level)))"
proof -
  define defn where
    "defn = (case entry_definition entry of None \<Rightarrow> u ''Definition not available.'' | Some d \<Rightarrow> d)"
  define related where "related = (case entry_related entry of None \<Rightarrow> [] | Some r \<Rightarrow> r)"
  define g where "g = generate_slide_deck now concept_query defn related level"
  define w2 where
    "w2 = write_file (write_file w (u ''slides.json'') (Json_deck (fst g)))
            (u ''script.txt'') (Text (snd g))"
  define w3 where "w3 = fst (write_simple_manim w2 (fst g) (u ''generated_manim.py''))"
  have ne: "u ''slides.json'' \<noteq> u ''generated_manim.py''" "u ''script.txt'' \<noteq> u ''generated_manim.py''"
    "u ''slides.json'' \<noteq> u ''script.txt''"
    by (simp_all add: u_def)
  have sl: "slides (fst g) \<noteq> []"
    unfolding g_def by (rule generate_slide_deck_slides_nonempty)
  have f2: "files w2 (u ''slides.json'') = Some (Json_deck (fst g))"
    "files w2 (u ''script.txt'') = Some (Text (snd g))"
    using ne by (simp_all add: w2_def write_file_def)
  have f3: "files w3 (u ''slides.json'') = Some (Json_deck (fst g))"
    "files w3 (u ''script.txt'') = Some (Text (snd g))"
    using write_simple_manim_files [OF sl ne(1), of w2] write_simple_manim_files [OF sl ne(2), of w2] f2
    by (simp_all add: w3_def)
  have "\<exists>w'. main now w concept_query level = Inr w' \<and> files w' = files w3"
    using assms
    by (simp add: main_def Let_def print_def w3_def w2_def g_def defn_def related_def
          split: option.split)
  then show ?thesis using f3 by (auto simp: g_def defn_def related_def)
qed

section \<open>The shape of a deck\<close>

text \<open>
  C1. For every concept name, definition, list of related topics and audience level, the
  deck that \<open>generate_slide_deck\<close> returns has exactly five slides, of the types title,
  definition, example, related and summary in this order, whether the list of related
  topics is empty or not.
\<close>

theorem generate_slide_deck_five_slides:
  "length (slides (fst (generate_slide_deck now concept_name defn related level))) = 5
   \<and> map slide_type (slides (fst (generate_slide_deck now concept_name defn related level)))
       = [u ''title'', u ''definition'', u ''example'', u ''related'', u ''summary'']"
  by (simp add: generate_slide_deck_def Let_def)

section \<open>Determinism\<close>

text \<open>
  C2. \<open>generate_slide_deck\<close> is a function of its four inputs: two calls with the same
  concept name, definition, related topics and audience level, made at any two times
  \<open>now1\<close> and \<open>now2\<close>, return the same slides, the same concept and audience level, and
  the same narration. Only \<open>generated_at\<close> depends on the clock.
\<close>

theorem generate_slide_deck_clock_independent:
  "slides (fst (generate_slide_deck now1 concept_name defn related level))
     = slides (fst (generate_slide_deck now2 concept_name defn related level))
   \<and> concept (fst (generate_slide_deck now1 concept_name defn related level))
     = concept (fst (generate_slide_deck now2 concept_name defn related level))
   \<and> audience_level (fst (generate_slide_deck now1 concept_name defn related level))
     = audience_level (fst (generate_slide_deck now2 concept_name defn related level))
   \<and> snd (generate_slide_deck now1 concept_name defn related level)
     = snd (generate_slide_deck now2 concept_name defn related level)"
  by (simp add: generate_slide_deck_def Let_def)

section \<open>No related topics\<close>

text \<open>
  C5. With an empty list of related topics the example slide still has its three bullets
  and its notes, filled with the generic scenario, so neither is empty; the related slide
  has exactly one bullet, the placeholder, and its notes are one fixed sentence.
\<close>

theorem generate_slide_deck_no_related:
  "bullets (slides (fst (generate_slide_deck now concept_name defn [] level)) ! 2)
     = Some [u ''Set up the scenario'',
             u ''Apply the core idea of '' @ concept_name,
             u ''Observe the result / takeaway'']
   \<and> notes (slides (fst (generate_slide_deck now concept_name defn [] level)) ! 2)
     = Some (u ''Example: Consider a simple conceptual scenario. This demonstrates the main idea: the core intuition behind ''
             @ concept_name @ u ''.'')
   \<and> bullets (slides (fst (generate_slide_deck now concept_name defn [] level)) ! 3)
     = Some [u ''Further reading not available'']
   \<and> notes (slides (fst (generate_slide_deck now concept_name defn [] level)) ! 3)
     = Some (u ''Related topics you might want to learn next: No related topics available..'')"
  by (simp add: generate_slide_deck_def Let_def EXAMPLE_TEMPLATE_def RELATED_TEMPLATE_def u_def)

section \<open>The narration\<close>


section \<open>The audience level\<close>

text \<open>
  C10. The audience level is not validated: every level other than exactly
  \<open>beginner\<close> selects the advanced wording of the definition notes, and the call
  returns its five slides as for any input, recording the level as given.
\<close>

theorem generate_slide_deck_not_beginner:
  "level \<noteq> u ''beginner'' \<Longrightarrow>
     notes (slides (fst (generate_slide_deck now concept_name defn related level)) ! 1)
       = Some (u ''Formally, '' @ concept_name @ u '' is: '' @ defn
               @ u '' We'll also highlight important properties and implications.'')
     \<and> audience_level (fst (generate_slide_deck now concept_name defn related level)) = level
     \<and> length (slides (fst (generate_slide_deck now concept_name defn related level))) = 5"
  by (simp add: generate_slide_deck_def Let_def DEFINITION_TEMPLATE_ADVANCED_def)

theorem generate_slide_deck_not_beginner_witness:
  "u ''advanced'' \<noteq> u ''beginner'' \<and> u ''Beginner'' \<noteq> u ''beginner'' \<and> u ''expert'' \<noteq> u ''beginner''
   \<and> notes (slides (fst (generate_slide_deck [] (u ''Trees'') (u ''A tree.'') [] (u ''advanced''))) ! 1)
       = Some (u ''Formally, Trees is: A tree. We'll also highlight important properties and implications.'')
   \<and> notes (slides (fst (generate_slide_deck [] (u ''Trees'') (u ''A tree.'') [] (u ''Beginner''))) ! 1)
       = Some (u ''Formally, Trees is: A tree. We'll also highlight important properties and implications.'')
   \<and> notes (slides (fst (generate_slide_deck [] (u ''Trees'') (u ''A tree.'') [] (u ''expert''))) ! 1)
       = Some (u ''Formally, Trees is: A tree. We'll also highlight important properties and implications.'')
   \<and> notes (slides (fst (generate_slide_deck [] (u ''Trees'') (u ''A tree.'') [] (u ''beginner''))) ! 1)
       = Some (u ''Trees can be understood as: A tree. I'll explain the idea step by step with a simple example.'')"
proof -
  have a: "u ''advanced'' \<noteq> u ''beginner''" by (simp add: u_def)
  have b: "u ''Beginner'' \<noteq> u ''beginner''" by (simp add: u_def)
  have c: "u ''expert'' \<noteq> u ''beginner''" by (simp add: u_def)
  have d: "notes (slides (fst (generate_slide_deck [] (u ''Trees'') (u ''A tree.'') [] (u ''beginner''))) ! 1)
       = Some (u ''Trees can be understood as: A tree. I'll explain the idea step by step with a simple example.'')"
    by (simp add: generate_slide_deck_def Let_def DEFINITION_TEMPLATE_BEGINNER_def u_def)
  show ?thesis
    using a b c d
      generate_slide_deck_not_beginner [OF a, of "[]" "u ''Trees''" "u ''A tree.''" "[]"]
      generate_slide_deck_not_beginner [OF b, of "[]" "u ''Trees''" "u ''A tree.''" "[]"]
      generate_slide_deck_not_beginner [OF c, of "[]" "u ''Trees''" "u ''A tree.''" "[]"]
    by (simp add: u_def)
qed

section \<open>Truncation\<close>

text \<open>
  C3. For every text and every bound \<open>n\<close> (a count, so not negative), \<open>truncate_text\<close>
  returns the first \<open>n\<close> whitespace-delimited words of the text joined by single
  spaces, followed by the three dots \<^verbatim>\<open>...\<close> exactly when the text has more than \<open>n\<close>
  words. The generator calls it with 15 for the subtitle, 20 for the bullet of the
  definition slide, 20 for the summary and 6 for the title of the example slide.
\<close>

theorem truncate_text_spec:
  "0 \<le> n \<Longrightarrow>
     truncate_text text n
       = py_join (u '' '') (take (nat n) (whitespace_words text))
         @ (if n < int (length (whitespace_words text)) then u ''...'' else [])
     \<and> subtitle (slides (fst (generate_slide_deck now concept_name defn related level)) ! 0)
         = Some (truncate_text defn 15)
     \<and> bullets (slides (fst (generate_slide_deck now concept_name defn related level)) ! 1)
         = Some [truncate_text defn 20]
     \<and> bullets (slides (fst (generate_slide_deck now concept_name defn related level)) ! 4)
         = Some [truncate_text defn 20]
     \<and> notes (slides (fst (generate_slide_deck now concept_name defn related level)) ! 4)
         = Some (u ''In summary, '' @ concept_name @ u '': '' @ truncate_text defn 20)
     \<and> title (slides (fst (generate_slide_deck now concept_name defn related level)) ! 2)
         = u ''Simple example: ''
           @ truncate_text (if related = [] then u ''a simple conceptual scenario''
                            else u ''a simple case involving '' @ hd related) 6"
  by (simp add: truncate_text_words generate_slide_deck_def Let_def)

theorem truncate_text_spec_witness:
  "(0::int) \<le> 2
   \<and> truncate_text (u ''one  two three'') 2 = u ''one two...''
   \<and> truncate_text (u '' one two '') 2 = u ''one two''
   \<and> subtitle (slides (fst (generate_slide_deck [] (u ''Trees'')
        (u ''A hierarchical data structure with nodes.'') [u ''Binary Tree'', u ''Graphs''] (u ''beginner''))) ! 0)
       = Some (u ''A hierarchical data structure with nodes.'')"
proof -
  have h: "(0::int) \<le> 2" by simp
  have h15: "(0::int) \<le> 15" by simp
  have w1: "whitespace_words (u ''one  two three'') = [u ''one'', u ''two'', u ''three'']"
    by (simp add: py_split_words [symmetric] py_split_def u_def is_space_def)
  have w2: "whitespace_words (u '' one two '') = [u ''one'', u ''two'']"
    by (simp add: py_split_words [symmetric] py_split_def u_def is_space_def)
  have w3: "whitespace_words (u ''A hierarchical data structure with nodes.'')
              = [u ''A'', u ''hierarchical'', u ''data'', u ''structure'', u ''with'', u ''nodes.'']"
    by (simp add: py_split_words [symmetric] py_split_def u_def is_space_def)
  have a: "truncate_text (u ''one  two three'') 2 = u ''one two...''"
    using truncate_text_spec [OF h, of "u ''one  two three''"] w1 by (simp add: u_def)
  have b: "truncate_text (u '' one two '') 2 = u ''one two''"
    using truncate_text_spec [OF h, of "u '' one two ''"] w2 by (simp add: u_def)
  have c: "truncate_text (u ''A hierarchical data structure with nodes.'') 15
             = u ''A hierarchical data structure with nodes.''"
    using truncate_text_spec [OF h15, of "u ''A hierarchical data structure with nodes.''"] w3
    by (simp add: u_def)
  have d: "subtitle (slides (fst (generate_slide_deck [] (u ''Trees'')
        (u ''A hierarchical data structure with nodes.'') [u ''Binary Tree'', u ''Graphs''] (u ''beginner''))) ! 0)
       = Some (truncate_text (u ''A hierarchical data structure with nodes.'') 15)"
    using truncate_text_spec [OF h, of "[]" "[]" "u ''Trees''"
        "u ''A hierarchical data structure with nodes.''" "[u ''Binary Tree'', u ''Graphs'']" "u ''beginner''"]
    by simp
  show ?thesis using h a b c d by simp
qed

text \<open>
  C4, as amended. For every text and bound \<open>n\<close> that is not negative, truncating the
  output of \<open>truncate_text\<close> again with the same bound returns that output unchanged;
  and a text of at most \<open>n\<close> words comes back without the dots as its words joined by
  single spaces, which is the text itself only when it is already written that way.
\<close>

theorem truncate_text_idempotent:
  "0 \<le> n \<Longrightarrow>
     truncate_text (truncate_text text n) n = truncate_text text n
     \<and> (int (length (py_split text)) \<le> n \<longrightarrow>
          truncate_text text n = py_join (u '' '') (py_split text))"
  by (simp add: truncate_text_idem) (simp add: truncate_text_words py_split_words)

theorem truncate_text_idempotent_witness:
  "(0::int) \<le> 2
   \<and> truncate_text (u ''one two three'') 2 = u ''one two...''
   \<and> truncate_text (truncate_text (u ''one two three'') 2) 2 = u ''one two...''
   \<and> int (length (py_split (u ''one  two''))) \<le> 2
   \<and> truncate_text (u ''one  two'') 2 = u ''one two''"
proof -
  have h: "(0::int) \<le> 2" by simp
  have a: "truncate_text (u ''one two three'') 2 = u ''one two...''"
    by (simp add: truncate_text_def py_slice_to_def py_split_def Let_def u_def is_space_def)
  have s: "py_split (u ''one  two'') = [u ''one'', u ''two'']"
    by (simp add: py_split_def u_def is_space_def)
  show ?thesis
    using h a s truncate_text_idempotent [OF h, of "u ''one two three''"]
      truncate_text_idempotent [OF h, of "u ''one  two''"]
    by (simp add: u_def)
qed

text \<open>
  A text of at most \<open>n\<close> words is not always returned as it is: a space in front of
  the single word of a text is dropped.
\<close>

theorem truncate_text_same_string_counterexample:
  "int (length (py_split (u '' a''))) \<le> 1 \<and> truncate_text (u '' a'') 1 = u ''a''
   \<and> truncate_text (u '' a'') 1 \<noteq> u '' a''"
  by (simp add: truncate_text_def py_slice_to_def py_split_def Let_def u_def is_space_def)

section \<open>The example slide\<close>

text \<open>
  C9. With a non-empty list of related topics the example slide is built from its first
  entry alone: the example string names it; the title is the fixed label followed by the
  six-word truncation of the example string, that is its first six whitespace-delimited
  words joined by single spaces, with the three dots added exactly when it has more than
  six words; the bullets are the three fixed phrases (the second carries the concept
  name); and the notes are the example template filled with the example string and the
  point made of the concept name and the same first entry. The entries after the first
  do not matter. For the concept Trees with the related topics Binary Tree and Graphs,
  the slide refers to Binary Tree and nothing is cut; with Binary Search Tree as first
  topic the example string has seven words and the title is cut after the sixth.
\<close>

theorem generate_slide_deck_example_slide:
  "slides (fst (generate_slide_deck now concept_name defn (r # rs) level)) ! 2
     = \<lparr> slide_type = u ''example'',
         title = u ''Simple example: ''
                 @ py_join (u '' '') (take 6 (whitespace_words (u ''a simple case involving '' @ r)))
                 @ (if 6 < length (whitespace_words (u ''a simple case involving '' @ r))
                    then u ''...'' else []),
         subtitle = None,
         bullets = Some [u ''Set up the scenario'',
                         u ''Apply the core idea of '' @ concept_name,
                         u ''Observe the result / takeaway''],
         notes = Some (u ''Example: Consider a simple case involving '' @ r
                       @ u ''. This demonstrates the main idea: how '' @ concept_name
                       @ u '' uses '' @ r @ u '' in structure/operation.''),
         duration_sec = 12 \<rparr>
   \<and> slides (fst (generate_slide_deck now concept_name defn (r # rs) level)) ! 2
     = slides (fst (generate_slide_deck now concept_name defn [r] level)) ! 2
   \<and> title (slides (fst (generate_slide_deck now (u ''Trees'')
        (u ''A hierarchical data structure with nodes.'') [u ''Binary Tree'', u ''Graphs''] (u ''beginner''))) ! 2)
     = u ''Simple example: a simple case involving Binary Tree''
   \<and> notes (slides (fst (generate_slide_deck now (u ''Trees'')
        (u ''A hierarchical data structure with nodes.'') [u ''Binary Tree'', u ''Graphs''] (u ''beginner''))) ! 2)
     = Some (u ''Example: Consider a simple case involving Binary Tree. This demonstrates the main idea: how Trees uses Binary Tree in structure/operation.'')
   \<and> title (slides (fst (generate_slide_deck now (u ''Trees'')
        (u ''A hierarchical data structure with nodes.'') [u ''Binary Search Tree'', u ''Graphs''] (u ''beginner''))) ! 2)
     = u ''Simple example: a simple case involving Binary Search...''
   \<and> notes (slides (fst (generate_slide_deck now (u ''Trees'')
        (u ''A hierarchical data structure with nodes.'') [u ''Binary Search Tree'', u ''Graphs''] (u ''beginner''))) ! 2)
     = Some (u ''Example: Consider a simple case involving Binary Search Tree. This demonstrates the main idea: how Trees uses Binary Search Tree in structure/operation.'')"
proof -
  have six: "truncate_text s 6
               = py_join (u '' '') (take 6 (whitespace_words s))
                 @ (if 6 < length (whitespace_words s) then u ''...'' else [])" for s
    using truncate_text_words [of 6 s] by simp
  have t: "truncate_text (u ''a simple case involving '' @ u ''Binary Tree'') 6
             = u ''a simple case involving Binary Tree''"
    by (simp add: truncate_text_def py_slice_to_def py_split_def Let_def u_def is_space_def)
  have c: "truncate_text (u ''a simple case involving '' @ u ''Binary Search Tree'') 6
             = u ''a simple case involving Binary Search...''"
    by (simp add: truncate_text_def py_slice_to_def py_split_def Let_def u_def is_space_def)
  have general: "slides (fst (generate_slide_deck now concept_name defn (r # rs) level)) ! 2
     = \<lparr> slide_type = u ''example'',
         title = u ''Simple example: '' @ truncate_text (u ''a simple case involving '' @ r) 6,
         subtitle = None,
         bullets = Some [u ''Set up the scenario'',
                         u ''Apply the core idea of '' @ concept_name,
                         u ''Observe the result / takeaway''],
         notes = Some (u ''Example: Consider a simple case involving '' @ r
                       @ u ''. This demonstrates the main idea: how '' @ concept_name
                       @ u '' uses '' @ r @ u '' in structure/operation.''),
         duration_sec = 12 \<rparr>" for rs
    by (simp add: generate_slide_deck_def Let_def EXAMPLE_TEMPLATE_def u_def)
  have same: "slides (fst (generate_slide_deck now concept_name defn (r # rs) level)) ! 2
     = slides (fst (generate_slide_deck now concept_name defn [r] level)) ! 2"
    by (simp add: general)
  have inst: "title (slides (fst (generate_slide_deck now (u ''Trees'')
        (u ''A hierarchical data structure with nodes.'') [u ''Binary Tree'', u ''Graphs''] (u ''beginner''))) ! 2)
     = u ''Simple example: a simple case involving Binary Tree''
   \<and> notes (slides (fst (generate_slide_deck now (u ''Trees'')
        (u ''A hierarchical data structure with nodes.'') [u ''Binary Tree'', u ''Graphs''] (u ''beginner''))) ! 2)
     = Some (u ''Example: Consider a simple case involving Binary Tree. This demonstrates the main idea: how Trees uses Binary Tree in structure/operation.'')
   \<and> title (slides (fst (generate_slide_deck now (u ''Trees'')
        (u ''A hierarchical data structure with nodes.'') [u ''Binary Search Tree'', u ''Graphs''] (u ''beginner''))) ! 2)
     = u ''Simple example: a simple case involving Binary Search...''
   \<and> notes (slides (fst (generate_slide_deck now (u ''Trees'')
        (u ''A hierarchical data structure with nodes.'') [u ''Binary Search Tree'', u ''Graphs''] (u ''beginner''))) ! 2)
     = Some (u ''Example: Consider a simple case involving Binary Search Tree. This demonstrates the main idea: how Trees uses Binary Search Tree in structure/operation.'')"
    by (simp add: generate_slide_deck_def Let_def t c) (simp add: EXAMPLE_TEMPLATE_def u_def)
  show ?thesis
    using general [of rs] same inst by (simp only: six)
qed

section \<open>Lookup\<close>

text \<open>
  C7. \<open>get_concept_info\<close> looks the name up as it is written: for a name that is a key
  of the table it returns the stored definition and related topics, and for a name that
  is not a key it returns no definition and an empty list of related topics, raising
  nothing.
\<close>

theorem get_concept_info_exact:
  "(kg name = Some \<lparr> entry_definition = Some defn, entry_related = Some related \<rparr>
      \<longrightarrow> get_concept_info kg name = Inr (Some defn, related))
   \<and> (kg name = None \<longrightarrow> get_concept_info kg name = Inr (None, []))"
  by (simp add: get_concept_info_def)

theorem get_concept_info_exact_witness:
  "knowledge_graph (u ''Trees'')
     = Some \<lparr> entry_definition = Some (u ''A hierarchical data structure with nodes.''),
              entry_related = Some [u ''Binary Tree'', u ''Graphs''] \<rparr>
   \<and> get_concept_info knowledge_graph (u ''Trees'')
     = Inr (Some (u ''A hierarchical data structure with nodes.''), [u ''Binary Tree'', u ''Graphs''])
   \<and> knowledge_graph (u ''trees'') = None
   \<and> get_concept_info knowledge_graph (u ''trees'') = Inr (None, [])
   \<and> knowledge_graph (u ''Tree'') = None
   \<and> get_concept_info knowledge_graph (u ''Tree'') = Inr (None, [])"
proof -
  have a: "knowledge_graph (u ''Trees'')
     = Some \<lparr> entry_definition = Some (u ''A hierarchical data structure with nodes.''),
              entry_related = Some [u ''Binary Tree'', u ''Graphs''] \<rparr>"
    by (simp add: knowledge_graph_def u_def)
  have b: "knowledge_graph (u ''trees'') = None"
    by (simp add: knowledge_graph_def u_def)
  have c: "knowledge_graph (u ''Tree'') = None"
    by (simp add: knowledge_graph_def u_def)
  show ?thesis
    using a b c
      get_concept_info_exact [of knowledge_graph "u ''Trees''"
        "u ''A hierarchical data structure with nodes.''" "[u ''Binary Tree'', u ''Graphs'']"]
      get_concept_info_exact [of knowledge_graph "u ''trees''"]
      get_concept_info_exact [of knowledge_graph "u ''Tree''"]
    by simp
qed

section \<open>An unknown concept\<close>

text \<open>
  C8. When the concept asked for is not a key of the loaded table, \<open>main\<close> returns
  normally: it prints the not-found line and leaves every file as it was, so no deck, no
  narration and no Manim scene is written.
\<close>

theorem main_not_found:
  "files w (u ''knowledge_graph.json'') = Some (Json_table kg) \<Longrightarrow> kg concept_query = None \<Longrightarrow>
     \<exists>w'. main now w concept_query level = Inr w'
          \<and> files w' = files w
          \<and> stdout w' = stdout w @ [[10060] @ u '' Concept '' @ [39] @ concept_query @ [39]
                                     @ u '' not found in knowledge_graph.json'']"
  by (simp add: main_def print_def)

theorem main_not_found_witness:
  "files demo_world (u ''knowledge_graph.json'') = Some (Json_table knowledge_graph)
   \<and> knowledge_graph (u ''Quantum Foo'') = None
   \<and> (\<exists>w'. main [] demo_world (u ''Quantum Foo'') (u ''beginner'') = Inr w'
          \<and> files w' = files demo_world
          \<and> files w' (u ''slides.json'') = None
          \<and> files w' (u ''script.txt'') = None
          \<and> files w' (u ''generated_manim.py'') = None
          \<and> stdout w' = [[10060] @ u '' Concept 'Quantum Foo' not found in knowledge_graph.json''])"
proof -
  have a: "files demo_world (u ''knowledge_graph.json'') = Some (Json_table knowledge_graph)"
    by (simp add: demo_world_def)
  have b: "knowledge_graph (u ''Quantum Foo'') = None"
    by (simp add: knowledge_graph_def u_def)
  have c: "files demo_world (u ''slides.json'') = None \<and> files demo_world (u ''script.txt'') = None
           \<and> files demo_world (u ''generated_manim.py'') = None \<and> stdout demo_world = []"
    by (simp add: demo_world_def u_def)
  obtain w' where w': "main [] demo_world (u ''Quantum Foo'') (u ''beginner'') = Inr w'"
      "files w' = files demo_world"
      "stdout w' = stdout demo_world @ [[10060] @ u '' Concept '' @ [39] @ u ''Quantum Foo'' @ [39]
                                     @ u '' not found in knowledge_graph.json'']"
    using main_not_found [OF a b, of "[]" "u ''beginner''"] by blast
  have "stdout w' = [[10060] @ u '' Concept 'Quantum Foo' not found in knowledge_graph.json'']"
    using w'(3) c by (simp add: u_def)
  then show ?thesis using a b c w' by simp
qed

end
